theory Spec2Isabelle
  imports Complex_Main "HOL-Library.Word" "HOL-Library.AList"
begin

section \<open>RtpStream (include/RTC/RtpStream.hpp)\<close>

text \<open>
  The \<open>Params\<close> struct of a stream and the RFC 3550 A.1 sequence state that
  \<open>RtpStream\<close> declares. \<open>uint16_t\<close>, \<open>uint32_t\<close> and \<open>uint64_t\<close> members are
  words of that width, so that arithmetic on them wraps as it does in C++.
  \<open>useInBandFec\<close> and \<open>cname\<close> are assigned by \<open>SimpleConsumer::CreateRtpStream\<close>.
\<close>

record Params =
  params_ssrc :: "32 word"
  params_payloadType :: "8 word"
  params_mimeType :: string
  params_clockRate :: "32 word"
  params_rid :: string
  params_cname :: string
  params_rtxSsrc :: "32 word"
  params_rtxPayloadType :: "8 word"
  params_useNack :: bool
  params_usePli :: bool
  params_useFir :: bool
  params_useInBandFec :: bool

record RtpStream =
  params :: Params
  stream_paused :: bool
  maxSeq :: "16 word"
  cycles :: "32 word"
  baseSeq :: "32 word"
  badSeq :: "32 word"
  maxPacketTs :: "32 word"
  maxPacketMs :: "64 word"
  bufferSize :: nat

definition GetClockRate :: "RtpStream \<Rightarrow> 32 word" where
  "GetClockRate s = params_clockRate (params s)"

definition GetMaxPacketMs :: "RtpStream \<Rightarrow> 64 word" where
  "GetMaxPacketMs s = maxPacketMs s"

definition SetRtx :: "8 word \<Rightarrow> 32 word \<Rightarrow> RtpStream \<Rightarrow> RtpStream" where
  "SetRtx payloadType ssrc s =
     s\<lparr>params := (params s)\<lparr>params_rtxPayloadType := payloadType, params_rtxSsrc := ssrc\<rparr>\<rparr>"

text \<open>
  \<open>(this->cycles + this->maxSeq) - this->baseSeq + 1\<close>: \<open>maxSeq\<close> is promoted to
  \<open>unsigned int\<close>, the whole expression is computed in \<open>uint32_t\<close> and the result is
  widened to \<open>size_t\<close> (64 bits) on return.
\<close>

definition GetExpectedPackets :: "RtpStream \<Rightarrow> 64 word" where
  "GetExpectedPackets s = ucast ((cycles s + ucast (maxSeq s)) - baseSeq s + 1 :: 32 word)"

section \<open>JSON values and errors\<close>

text \<open>
  The value kinds of the JSON library the worker uses: an unsigned number holds a
  \<open>uint64_t\<close>, a signed one an \<open>int64_t\<close>, a float a \<open>double\<close>. No arithmetic is done
  on the double here (it is stored, read back and compared with zero), so it is a real
  number. An object maps each key to one value; it is kept as an association list
  that \<open>json_set\<close> updates in place.
\<close>

datatype json =
    JNull
  | JBool bool
  | JNumberUnsigned "64 word"
  | JNumberInteger "64 word"
  | JNumberFloat real
  | JString string
  | JArray "json list"
  | JObject "(string \<times> json) list"

datatype MediaSoupError = MediaSoupError string | MediaSoupTypeError string

fun is_object :: "json \<Rightarrow> bool" where
  "is_object (JObject kvs) = True"
| "is_object _ = False"

text \<open>\<open>data.find(key)\<close>: \<open>None\<close> stands for \<open>data.end()\<close>.\<close>

fun json_find :: "json \<Rightarrow> string \<Rightarrow> json option" where
  "json_find (JObject kvs) key = map_of kvs key"
| "json_find _ key = None"

text \<open>\<open>jsonObject[key] = value\<close> on an object.\<close>

fun json_set :: "string \<Rightarrow> json \<Rightarrow> json \<Rightarrow> json" where
  "json_set key v (JObject kvs) = JObject (AList.update key v kvs)"
| "json_set key v _ = JObject [(key, v)]"

section \<open>RtpEncodingParameters (src/RTC/RtpDictionaries/RtpEncodingParameters.cpp)\<close>

text \<open>
  Modelled from the spec: the class declarations of \<open>RtpDictionaries.hpp\<close> are not among
  the sources. The spec's data model gives an encoding an \<open>ssrc\<close>, an optional \<open>rid\<close>
  and an optional \<open>rtx.ssrc\<close>; the other members are those the constructor and
  \<open>FillJson\<close> read and write, with the widths of the \<open>get<T>()\<close> calls.
\<close>

record RtpRtxParameters =
  rtx_ssrc :: "32 word"

record RtpEncodingParameters =
  ssrc :: "32 word"
  rid :: string
  codecPayloadType :: "8 word"
  hasCodecPayloadType :: bool
  rtx :: RtpRtxParameters
  hasRtx :: bool
  maxBitrate :: "32 word"
  maxFramerate :: real

text \<open>
  Modelled from the spec: the default member initialisers are in the missing header.
  A member the constructor does not assign is zero, empty or false, the values that
  \<open>FillJson\<close> leaves out as absent.
\<close>

definition RtpRtxParameters_default :: RtpRtxParameters where
  "RtpRtxParameters_default = \<lparr>rtx_ssrc = 0\<rparr>"

definition RtpEncodingParameters_default :: RtpEncodingParameters where
  "RtpEncodingParameters_default =
     \<lparr>ssrc = 0, rid = [], codecPayloadType = 0, hasCodecPayloadType = False,
      rtx = RtpRtxParameters_default, hasRtx = False, maxBitrate = 0, maxFramerate = 0\<rparr>"

text \<open>
  The constructor \<open>RtpEncodingParameters(json& data)\<close>. Each optional member is read
  when its key is present with the tested kind; \<open>get<uint32_t>\<close> and \<open>get<uint8_t>\<close>
  narrow the stored 64-bit number. The constructor of \<open>RtpRtxParameters\<close> is not among
  the sources and is the parameter \<open>rtxCtor\<close>; it may throw, and that error leaves
  this constructor.
\<close>

definition read_ssrc :: "json \<Rightarrow> RtpEncodingParameters \<Rightarrow> RtpEncodingParameters" where
  "read_ssrc data e =
     (case json_find data ''ssrc'' of
        Some (JNumberUnsigned n) \<Rightarrow> e\<lparr>ssrc := ucast n\<rparr>
      | _ \<Rightarrow> e)"

definition read_rid :: "json \<Rightarrow> RtpEncodingParameters \<Rightarrow> RtpEncodingParameters" where
  "read_rid data e =
     (case json_find data ''rid'' of
        Some (JString s) \<Rightarrow> e\<lparr>rid := s\<rparr>
      | _ \<Rightarrow> e)"

definition read_codecPayloadType :: "json \<Rightarrow> RtpEncodingParameters \<Rightarrow> RtpEncodingParameters" where
  "read_codecPayloadType data e =
     (case json_find data ''codecPayloadType'' of
        Some (JNumberUnsigned n) \<Rightarrow> e\<lparr>codecPayloadType := ucast n, hasCodecPayloadType := True\<rparr>
      | _ \<Rightarrow> e)"

definition read_rtx ::
  "(json \<Rightarrow> MediaSoupError + RtpRtxParameters) \<Rightarrow> json \<Rightarrow> RtpEncodingParameters
     \<Rightarrow> MediaSoupError + RtpEncodingParameters" where
  "read_rtx rtxCtor data e =
     (case json_find data ''rtx'' of
        Some (JObject kvs) \<Rightarrow>
          (case rtxCtor (JObject kvs) of
             Inl err \<Rightarrow> Inl err
           | Inr r \<Rightarrow> Inr (e\<lparr>rtx := r, hasRtx := True\<rparr>))
      | _ \<Rightarrow> Inr e)"

definition read_maxBitrate :: "json \<Rightarrow> RtpEncodingParameters \<Rightarrow> RtpEncodingParameters" where
  "read_maxBitrate data e =
     (case json_find data ''maxBitrate'' of
        Some (JNumberUnsigned n) \<Rightarrow> e\<lparr>maxBitrate := ucast n\<rparr>
      | _ \<Rightarrow> e)"

text \<open>
  \<open>is_number()\<close> holds for the three number kinds; \<open>get<double>()\<close> converts. The
  conversion of an integer kind is taken exact: above \<open>2^53\<close> the source rounds to the
  nearest double. \<open>FillJson\<close> writes \<open>maxFramerate\<close> as a float only, so a value it
  wrote is read back by the third case.
\<close>

definition read_maxFramerate :: "json \<Rightarrow> RtpEncodingParameters \<Rightarrow> RtpEncodingParameters" where
  "read_maxFramerate data e =
     (case json_find data ''maxFramerate'' of
        Some (JNumberUnsigned n) \<Rightarrow> e\<lparr>maxFramerate := real (unat n)\<rparr>
      | Some (JNumberInteger n) \<Rightarrow> e\<lparr>maxFramerate := real_of_int (sint n)\<rparr>
      | Some (JNumberFloat d) \<Rightarrow> e\<lparr>maxFramerate := d\<rparr>
      | _ \<Rightarrow> e)"

definition RtpEncodingParameters_of_json ::
  "(json \<Rightarrow> MediaSoupError + RtpRtxParameters) \<Rightarrow> json
     \<Rightarrow> MediaSoupError + RtpEncodingParameters" where
  "RtpEncodingParameters_of_json rtxCtor data =
     (if \<not> is_object data then Inl (MediaSoupTypeError ''data is not an object'')
      else
        case read_rtx rtxCtor data
               (read_codecPayloadType data
                 (read_rid data (read_ssrc data RtpEncodingParameters_default))) of
          Inl err \<Rightarrow> Inl err
        | Inr e \<Rightarrow> Inr (read_maxFramerate data (read_maxBitrate data e)))"

text \<open>
  \<open>RtpEncodingParameters::FillJson\<close>. \<open>rtxFillJson\<close> stands for
  \<open>RtpRtxParameters::FillJson\<close>, which fills the value stored under \<open>rtx\<close>.
\<close>

definition FillJson :: "(RtpRtxParameters \<Rightarrow> json) \<Rightarrow> RtpEncodingParameters \<Rightarrow> json" where
  "FillJson rtxFillJson e =
     (let j0 = JObject [];
          j1 = (if ssrc e \<noteq> 0 then json_set ''ssrc'' (JNumberUnsigned (ucast (ssrc e))) j0 else j0);
          j2 = (if rid e \<noteq> [] then json_set ''rid'' (JString (rid e)) j1 else j1);
          j3 = (if hasCodecPayloadType e
                then json_set ''codecPayloadType'' (JNumberUnsigned (ucast (codecPayloadType e))) j2
                else j2);
          j4 = (if hasRtx e then json_set ''rtx'' (rtxFillJson (rtx e)) j3 else j3);
          j5 = (if maxBitrate e \<noteq> 0
                then json_set ''maxBitrate'' (JNumberUnsigned (ucast (maxBitrate e))) j4 else j4);
          j6 = (if maxFramerate e > 0
                then json_set ''maxFramerate'' (JNumberFloat (maxFramerate e)) j5 else j5)
      in j6)"

text \<open>
  Modelled from the spec: \<open>RtpRtxParameters\<close>' own constructor and \<open>FillJson\<close> are not
  among the sources. This pair follows the pattern of the encoding's \<open>ssrc\<close> member
  (an optional unsigned number, left out when zero) and serves as the concrete
  instance at which the round-trip results are evaluated.
\<close>

definition RtpRtxParameters_of_json :: "json \<Rightarrow> MediaSoupError + RtpRtxParameters" where
  "RtpRtxParameters_of_json data =
     (if \<not> is_object data then Inl (MediaSoupTypeError ''data is not an object'')
      else case json_find data ''ssrc'' of
             Some (JNumberUnsigned n) \<Rightarrow> Inr \<lparr>rtx_ssrc = ucast n\<rparr>
           | _ \<Rightarrow> Inr RtpRtxParameters_default)"

definition RtpRtxParameters_FillJson :: "RtpRtxParameters \<Rightarrow> json" where
  "RtpRtxParameters_FillJson r =
     (if rtx_ssrc r \<noteq> 0 then json_set ''ssrc'' (JNumberUnsigned (ucast (rtx_ssrc r))) (JObject [])
      else JObject [])"

section \<open>What SimpleConsumer works on\<close>

text \<open>
  An RTP packet as \<open>SimpleConsumer\<close> reads and writes it: the three header fields it
  rewrites, the payload type and key-frame flag it tests, and the payload bytes.
\<close>

record RtpPacket =
  p_ssrc :: "32 word"
  p_sequenceNumber :: "16 word"
  p_timestamp :: "32 word"
  p_payloadType :: "8 word"
  p_isKeyFrame :: bool
  p_payload :: "8 word list"

text \<open>
  \<open>SeqManager<T>\<close>, the encoding context and the listener are classes of the worker
  that are not among the sources. Each is kept as the list of calls made on it, oldest
  first: whatever the class computes is a function of that history.
\<close>

datatype 'a SeqManagerCall = Sync 'a | Offset 'a | Drop 'a | Input 'a

datatype EncodingContextCall = SyncRequired | Encode "8 word list"

datatype ListenerCall =
    OnConsumerSendRtpPacket RtpPacket
  | OnConsumerKeyFrameRequested "32 word"

datatype Kind = AUDIO | VIDEO

datatype FeedbackPsMessageType = PLI | FIR

record RtcpFeedback =
  fb_type :: string
  fb_parameter :: string

text \<open>
  A codec of the negotiated parameters. \<open>codec_parameters\<close> holds the integer-valued
  entries of the codec's parameter dictionary (\<open>HasInteger\<close>, \<open>GetInteger\<close>).
\<close>

record RtpCodecParameters =
  codec_mimeType :: string
  codec_payloadType :: "8 word"
  codec_clockRate :: "32 word"
  codec_parameters :: "(string \<times> int) list"
  rtcpFeedback :: "RtcpFeedback list"

record RtpParameters =
  codecs :: "RtpCodecParameters list"
  encodings :: "RtpEncodingParameters list"
  rtcp_cname :: string

text \<open>
  Modelled from the spec: \<open>Consumer.hpp\<close> and \<open>SimpleConsumer.hpp\<close> are not among
  the sources. The members are those \<open>SimpleConsumer.cpp\<close> uses, under the names it
  uses; \<open>paused\<close> and \<open>producerPaused\<close> are what \<open>IsPaused()\<close> and
  \<open>IsProducerPaused()\<close> return. \<open>producerRtpStream\<close> is a pointer that is only tested
  against null and replaced. \<open>rtpStream\<close> is the stream the constructor allocates.
\<close>

record Consumer =
  kind :: Kind
  rtpParameters :: RtpParameters
  consumableRtpEncodings :: "RtpEncodingParameters list"
  supportedCodecPayloadTypes :: "8 word set"
  maxRtcpInterval :: "16 word"
  lastRtcpSentTime :: "64 word"
  paused :: bool
  producerPaused :: bool
  listener :: "ListenerCall list"

record SimpleConsumer = Consumer +
  rtpStream :: RtpStream
  producerRtpStream :: "RtpStream option"
  keyFrameSupported :: bool
  syncRequired :: bool
  rtpSeqManager :: "16 word SeqManagerCall list"
  rtpTimestampManager :: "32 word SeqManagerCall list"
  encodingContext :: "EncodingContextCall list option"

text \<open>
  The functions of the worker that \<open>SimpleConsumer.cpp\<close> calls and that are not among
  the sources, taken as parameters:
  \<^item> \<open>IsActive\<close> of the base class \<open>Consumer\<close>;
  \<^item> \<open>GetTime\<close>, the value \<open>DepLibUV::GetTime()\<close> returns during the call;
  \<^item> \<open>SeqInput\<close> and \<open>TimestampInput\<close>, the output that \<open>SeqManager::Input\<close> produces
    for an input after a history of calls;
  \<^item> \<open>EncodePayload\<close>, the result and the payload that \<open>RtpPacket::EncodePayload\<close>
    leaves for a context with the given history, and \<open>RestorePayload\<close>, the payload
    that \<open>RtpPacket::RestorePayload\<close> leaves;
  \<^item> \<open>ReceivePacket\<close>, \<open>StreamPause\<close>, \<open>StreamResume\<close> and \<open>StreamReceiveKeyFrameRequest\<close>
    of \<open>RtpStreamSend\<close>;
  \<^item> \<open>GetCodecForEncoding\<close> and \<open>GetRtxCodecForEncoding\<close> of \<open>RtpParameters\<close>,
    \<open>CanBeKeyFrame\<close> and \<open>GetEncodingContext\<close> of \<open>Codecs\<close> (whether there is a
    context for the mime type; a new context has an empty history).
  \<open>ReceivePacket\<close> and the listener are handed the packet and read it.
\<close>

record env =
  IsActive :: "SimpleConsumer \<Rightarrow> bool"
  GetTime :: "64 word"
  SeqInput :: "16 word SeqManagerCall list \<Rightarrow> 16 word \<Rightarrow> 16 word"
  TimestampInput :: "32 word SeqManagerCall list \<Rightarrow> 32 word \<Rightarrow> 32 word"
  EncodePayload :: "EncodingContextCall list \<Rightarrow> RtpPacket \<Rightarrow> bool \<times> 8 word list"
  RestorePayload :: "RtpPacket \<Rightarrow> 8 word list"
  ReceivePacket :: "RtpPacket \<Rightarrow> RtpStream \<Rightarrow> bool \<times> RtpStream"
  StreamPause :: "RtpStream \<Rightarrow> RtpStream"
  StreamResume :: "RtpStream \<Rightarrow> RtpStream"
  StreamReceiveKeyFrameRequest :: "FeedbackPsMessageType \<Rightarrow> RtpStream \<Rightarrow> RtpStream"
  GetCodecForEncoding :: "RtpParameters \<Rightarrow> RtpEncodingParameters \<Rightarrow> RtpCodecParameters"
  GetRtxCodecForEncoding :: "RtpParameters \<Rightarrow> RtpEncodingParameters \<Rightarrow> RtpCodecParameters option"
  CanBeKeyFrame :: "string \<Rightarrow> bool"
  GetEncodingContext :: "string \<Rightarrow> bool"

text \<open>
  Modelled from the spec: the constants of \<open>RTC::RTCP\<close> are not among the sources.
  The spec gives the report intervals as 5 s for audio and 1 s for video.
\<close>

definition MaxAudioIntervalMs :: "16 word" where
  "MaxAudioIntervalMs = 5000"

definition MaxVideoIntervalMs :: "16 word" where
  "MaxVideoIntervalMs = 1000"

section \<open>SimpleConsumer (src/RTC/SimpleConsumer.cpp)\<close>

subsection \<open>RequestKeyFrame and the calls that reach it\<close>

definition RequestKeyFrame :: "env \<Rightarrow> SimpleConsumer \<Rightarrow> SimpleConsumer" where
  "RequestKeyFrame env c =
     (if \<not> IsActive env c \<or> producerRtpStream c = None \<or> kind c \<noteq> VIDEO then c
      else
        let mappedSsrc = ssrc (consumableRtpEncodings c ! 0)
        in c\<lparr>listener := listener c @ [OnConsumerKeyFrameRequested mappedSsrc]\<rparr>)"

definition TransportConnected :: "env \<Rightarrow> SimpleConsumer \<Rightarrow> SimpleConsumer" where
  "TransportConnected env c = RequestKeyFrame env c"

definition ReceiveKeyFrameRequest ::
  "env \<Rightarrow> FeedbackPsMessageType \<Rightarrow> SimpleConsumer \<Rightarrow> SimpleConsumer" where
  "ReceiveKeyFrameRequest env messageType c =
     (if \<not> IsActive env c then c
      else RequestKeyFrame env
             (c\<lparr>rtpStream := StreamReceiveKeyFrameRequest env messageType (rtpStream c)\<rparr>))"

definition Paused :: "env \<Rightarrow> bool \<Rightarrow> SimpleConsumer \<Rightarrow> SimpleConsumer" where
  "Paused env wasProducer c = c\<lparr>rtpStream := StreamPause env (rtpStream c)\<rparr>"

definition Resumed :: "env \<Rightarrow> bool \<Rightarrow> SimpleConsumer \<Rightarrow> SimpleConsumer" where
  "Resumed env wasProducer c =
     (let c1 = c\<lparr>rtpStream := StreamResume env (rtpStream c)\<rparr>;
          c2 = c1\<lparr>syncRequired := True\<rparr>
      in if \<not> wasProducer then RequestKeyFrame env c2 else c2)"

text \<open>
  \<open>HandleRequest\<close>: the key-frame method is served here and accepted; every other
  method goes to \<open>Consumer::HandleRequest\<close>, the parameter \<open>parentHandleRequest\<close>.
  The boolean tells whether the request was accepted.
\<close>

datatype 'm MethodId = CONSUMER_REQUEST_KEY_FRAME | OtherMethod 'm

definition HandleRequest ::
  "env \<Rightarrow> ('m \<Rightarrow> SimpleConsumer \<Rightarrow> bool \<times> SimpleConsumer) \<Rightarrow> 'm MethodId
     \<Rightarrow> SimpleConsumer \<Rightarrow> bool \<times> SimpleConsumer" where
  "HandleRequest env parentHandleRequest methodId c =
     (case methodId of
        CONSUMER_REQUEST_KEY_FRAME \<Rightarrow> (True, RequestKeyFrame env c)
      | OtherMethod m \<Rightarrow> parentHandleRequest m c)"

subsection \<open>SendRtpPacket\<close>

text \<open>
  The block under \<open>if (isSyncPacket)\<close>. \<open>diffMs\<close> and \<open>diffTs\<close> are \<open>uint64_t\<close>;
  \<open>Offset\<close> takes a \<open>uint32_t\<close>, which narrows \<open>diffTs\<close>.
\<close>

definition sync_seq_and_timestamp :: "env \<Rightarrow> RtpPacket \<Rightarrow> SimpleConsumer \<Rightarrow> SimpleConsumer" where
  "sync_seq_and_timestamp env packet c =
     (let c1 = c\<lparr>rtpSeqManager := rtpSeqManager c @ [Sync (p_sequenceNumber packet)]\<rparr>;
          c2 = c1\<lparr>rtpTimestampManager := rtpTimestampManager c1 @ [Sync (p_timestamp packet)]\<rparr>;
          c3 = (if GetMaxPacketMs (rtpStream c2) \<noteq> 0 then
                  let now = GetTime env;
                      diffMs = now - GetMaxPacketMs (rtpStream c2);
                      diffTs = diffMs * ucast (GetClockRate (rtpStream c2)) div 1000
                  in c2\<lparr>rtpTimestampManager := rtpTimestampManager c2 @ [Offset (ucast diffTs)]\<rparr>
                else c2);
          c4 = (case encodingContext c3 of
                  Some ctx \<Rightarrow> c3\<lparr>encodingContext := Some (ctx @ [SyncRequired])\<rparr>
                | None \<Rightarrow> c3)
      in c4\<lparr>syncRequired := False\<rparr>)"

text \<open>
  From \<open>// Update RTP seq number and timestamp\<close> to the end of the function: remap,
  save the original fields, rewrite, hand the packet to the stream and (when the
  stream takes it) to the listener, restore the fields and, with an encoding context,
  the payload. \<open>encodings[0]\<close> is read without a check, here as in
  \<open>CreateRtpStream\<close>; on an empty vector C++ leaves the read undefined and \<open>!\<close>
  leaves it unspecified.
\<close>

definition rewrite_send_restore :: "env \<Rightarrow> RtpPacket \<Rightarrow> SimpleConsumer \<Rightarrow> RtpPacket \<times> SimpleConsumer" where
  "rewrite_send_restore env packet c =
     (let seq = SeqInput env (rtpSeqManager c) (p_sequenceNumber packet);
          c1 = c\<lparr>rtpSeqManager := rtpSeqManager c @ [Input (p_sequenceNumber packet)]\<rparr>;
          timestamp = TimestampInput env (rtpTimestampManager c1) (p_timestamp packet);
          c2 = c1\<lparr>rtpTimestampManager := rtpTimestampManager c1 @ [Input (p_timestamp packet)]\<rparr>;
          origSsrc = p_ssrc packet;
          origSeq = p_sequenceNumber packet;
          origTimestamp = p_timestamp packet;
          packet1 = packet\<lparr>p_ssrc := ssrc (encodings (rtpParameters c2) ! 0),
                           p_sequenceNumber := seq, p_timestamp := timestamp\<rparr>;
          (received, stream') = ReceivePacket env packet1 (rtpStream c2);
          c3 = c2\<lparr>rtpStream := stream'\<rparr>;
          c4 = (if received then c3\<lparr>listener := listener c3 @ [OnConsumerSendRtpPacket packet1]\<rparr>
                else c3);
          packet2 = packet1\<lparr>p_ssrc := origSsrc, p_sequenceNumber := origSeq,
                            p_timestamp := origTimestamp\<rparr>;
          packet3 = (if encodingContext c4 \<noteq> None
                     then packet2\<lparr>p_payload := RestorePayload env packet2\<rparr> else packet2)
      in (packet3, c4))"

text \<open>
  \<open>if (this->encodingContext && !packet->EncodePayload(...))\<close>: the payload is encoded
  only when there is a context; the call is recorded in the context's history and the
  packet holds the payload the call left.
\<close>

definition encode_and_send :: "env \<Rightarrow> RtpPacket \<Rightarrow> SimpleConsumer \<Rightarrow> RtpPacket \<times> SimpleConsumer" where
  "encode_and_send env packet c =
     (case encodingContext c of
        None \<Rightarrow> rewrite_send_restore env packet c
      | Some ctx \<Rightarrow>
          let (encoded, payload') = EncodePayload env ctx packet;
              c1 = c\<lparr>encodingContext := Some (ctx @ [Encode (p_payload packet)])\<rparr>;
              packet1 = packet\<lparr>p_payload := payload'\<rparr>
          in if \<not> encoded then
               (packet1,
                c1\<lparr>rtpSeqManager := rtpSeqManager c1 @ [Drop (p_sequenceNumber packet1)],
                   rtpTimestampManager := rtpTimestampManager c1 @ [Drop (p_timestamp packet1)]\<rparr>)
             else rewrite_send_restore env packet1 c1)"

definition SendRtpPacket :: "env \<Rightarrow> RtpPacket \<Rightarrow> SimpleConsumer \<Rightarrow> RtpPacket \<times> SimpleConsumer" where
  "SendRtpPacket env packet c =
     (if \<not> IsActive env c then (packet, c)
      else if p_payloadType packet \<notin> supportedCodecPayloadTypes c then (packet, c)
      else if syncRequired c \<and> keyFrameSupported c \<and> \<not> p_isKeyFrame packet then (packet, c)
      else
        let isSyncPacket = syncRequired c;
            c1 = (if isSyncPacket then sync_seq_and_timestamp env packet c else c)
        in encode_and_send env packet c1)"

subsection \<open>GetRtcp\<close>

text \<open>
  The compound packet collects the sender reports and SDES chunks added to it.
  \<open>GetRtcpSenderReport\<close> (null when the stream has nothing to report) and
  \<open>GetRtcpSdesChunk\<close> of \<open>RtpStreamSend\<close> are not among the sources and are parameters.

  The test is \<open>static_cast<float>((now - lastRtcpSentTime) * 1.15) < maxRtcpInterval\<close>,
  with the difference taken in \<open>uint64_t\<close>. It is modelled in exact arithmetic, with
  1.15 as 115/100. The exact product is a multiple of 1/20, so it either equals the
  interval or is at least 1/20 away from it; an interval is below \<open>2^16\<close>, where the
  roundings to \<open>double\<close> and to \<open>float\<close> move the product by less than 1/200 and
  take a product that is a whole number to that number. The comparison therefore comes
  out the same as in the source.
\<close>

record ('sr, 'sd) CompoundPacket =
  senderReports :: "'sr list"
  sdesChunks :: "'sd list"

definition GetRtcp ::
  "(64 word \<Rightarrow> RtpStream \<Rightarrow> 'sr option) \<Rightarrow> (RtpStream \<Rightarrow> 'sd) \<Rightarrow> ('sr, 'sd) CompoundPacket
     \<Rightarrow> 64 word \<Rightarrow> SimpleConsumer \<Rightarrow> ('sr, 'sd) CompoundPacket \<times> SimpleConsumer" where
  "GetRtcp GetRtcpSenderReport GetRtcpSdesChunk packet now c =
     (if real (unat (now - lastRtcpSentTime c)) * (115 / 100) < real (unat (maxRtcpInterval c))
      then (packet, c)
      else
        case GetRtcpSenderReport now (rtpStream c) of
          None \<Rightarrow> (packet, c)
        | Some report \<Rightarrow>
            let packet1 = packet\<lparr>senderReports := senderReports packet @ [report]\<rparr>;
                sdesChunk = GetRtcpSdesChunk (rtpStream c);
                packet2 = packet1\<lparr>sdesChunks := sdesChunks packet1 @ [sdesChunk]\<rparr>
            in (packet2, c\<lparr>lastRtcpSentTime := now\<rparr>))"

subsection \<open>The constructor and CreateRtpStream\<close>

text \<open>The loop over \<open>mediaCodec->rtcpFeedback\<close>.\<close>

fun apply_rtcpFeedback :: "RtcpFeedback list \<Rightarrow> Params \<Rightarrow> Params" where
  "apply_rtcpFeedback [] ps = ps"
| "apply_rtcpFeedback (fb # fbs) ps =
     apply_rtcpFeedback fbs
       (if \<not> params_useNack ps \<and> fb_type fb = ''nack'' \<and> fb_parameter fb = []
        then ps\<lparr>params_useNack := True\<rparr>
        else if \<not> params_usePli ps \<and> fb_type fb = ''nack'' \<and> fb_parameter fb = ''pli''
        then ps\<lparr>params_usePli := True\<rparr>
        else if \<not> params_useFir ps \<and> fb_type fb = ''ccm'' \<and> fb_parameter fb = ''fir''
        then ps\<lparr>params_useFir := True\<rparr>
        else ps)"

text \<open>
  \<open>RtpStream::Params\<close> as declared, and the stream \<open>new RtpStreamSend(this, params,
  bufferSize)\<close> starts from, with the member initialisers of \<open>RtpStream.hpp\<close>.
\<close>

definition Params_default :: Params where
  "Params_default =
     \<lparr>params_ssrc = 0, params_payloadType = 0, params_mimeType = [], params_clockRate = 0,
      params_rid = [], params_cname = [], params_rtxSsrc = 0, params_rtxPayloadType = 0,
      params_useNack = False, params_usePli = False, params_useFir = False,
      params_useInBandFec = False\<rparr>"

definition RtpStreamSend_new :: "Params \<Rightarrow> nat \<Rightarrow> RtpStream" where
  "RtpStreamSend_new ps bufSize =
     \<lparr>params = ps, stream_paused = False, maxSeq = 0, cycles = 0, baseSeq = 0, badSeq = 0,
      maxPacketTs = 0, maxPacketMs = 0, bufferSize = bufSize\<rparr>"

text \<open>
  \<open>CreateRtpStream\<close> runs on the object the base-class constructor built and gives it
  its stream, \<open>keyFrameSupported\<close> and the encoding context. Modelled from the spec:
  the initialisers of the other members are in the missing \<open>SimpleConsumer.hpp\<close>; a
  new consumer has no producer stream, new remappers and waits for a sync.
\<close>

definition CreateRtpStream :: "env \<Rightarrow> Consumer \<Rightarrow> SimpleConsumer" where
  "CreateRtpStream env b =
     (let encoding = encodings (rtpParameters b) ! 0;
          mediaCodec = GetCodecForEncoding env (rtpParameters b) encoding;
          params0 = Params_default
            \<lparr>params_ssrc := ssrc encoding,
             params_payloadType := codec_payloadType mediaCodec,
             params_mimeType := codec_mimeType mediaCodec,
             params_clockRate := codec_clockRate mediaCodec,
             params_cname := rtcp_cname (rtpParameters b)\<rparr>;
          params1 = (if map_of (codec_parameters mediaCodec) ''useinbandfec'' = Some 1
                     then params0\<lparr>params_useInBandFec := True\<rparr> else params0);
          params2 = apply_rtcpFeedback (rtcpFeedback mediaCodec) params1;
          bufSize = (if params_useNack params2 then 1500 else 0);
          stream0 = RtpStreamSend_new params2 bufSize;
          stream1 = (if paused b \<or> producerPaused b then StreamPause env stream0 else stream0);
          stream2 = (case GetRtxCodecForEncoding env (rtpParameters b) encoding of
                       Some rtxCodec \<Rightarrow>
                         if hasRtx encoding
                         then SetRtx (codec_payloadType rtxCodec) (rtx_ssrc (rtx encoding)) stream1
                         else stream1
                     | None \<Rightarrow> stream1)
      in \<lparr>kind = kind b, rtpParameters = rtpParameters b,
          consumableRtpEncodings = consumableRtpEncodings b,
          supportedCodecPayloadTypes = supportedCodecPayloadTypes b,
          maxRtcpInterval = maxRtcpInterval b, lastRtcpSentTime = lastRtcpSentTime b,
          paused = paused b, producerPaused = producerPaused b, listener = listener b,
          rtpStream = stream2, producerRtpStream = None,
          keyFrameSupported = CanBeKeyFrame env (codec_mimeType mediaCodec),
          syncRequired = True, rtpSeqManager = [], rtpTimestampManager = [],
          encodingContext =
            (if GetEncodingContext env (codec_mimeType mediaCodec) then Some [] else None)\<rparr>)"

text \<open>
  The constructor. \<open>base\<close> is what the base-class constructor \<open>Consumer::Consumer(id,
  listener, data, SIMPLE)\<close> (not among the sources) returns: the object it built from
  the request, or the error it threw, which then leaves this constructor as well.
\<close>

definition SimpleConsumer_new :: "env \<Rightarrow> MediaSoupError + Consumer \<Rightarrow> MediaSoupError + SimpleConsumer" where
  "SimpleConsumer_new env base =
     (case base of
        Inl err \<Rightarrow> Inl err
      | Inr b \<Rightarrow>
          if length (consumableRtpEncodings b) \<noteq> 1
          then Inl (MediaSoupTypeError ''invalid consumableRtpEncodings with size != 1'')
          else
            let b1 = (if kind b = AUDIO then b\<lparr>maxRtcpInterval := MaxAudioIntervalMs\<rparr>
                      else b\<lparr>maxRtcpInterval := MaxVideoIntervalMs\<rparr>)
            in Inr (CreateRtpStream env b1))"

section \<open>A concrete consumer\<close>

text \<open>
  One instance of the parameters and one consumer, at which the results below are
  evaluated. The instance of \<open>EncodePayload\<close> rewrites the first payload byte (as a
  picture-id rewriter does) and fails, touching nothing, on an empty payload;
  \<open>RestorePayload\<close> puts the byte back. The stream takes a packet unless it is paused.
  The timestamp remapper adds the offsets it was given to its input.
\<close>

definition witness_env :: env where
  "witness_env =
     \<lparr>IsActive = (\<lambda>c. \<not> paused c \<and> \<not> producerPaused c),
      GetTime = 20000,
      SeqInput = (\<lambda>h x. x + 1000),
      TimestampInput =
        (\<lambda>h x. x + 7 + sum_list (map (\<lambda>call. case call of Offset d \<Rightarrow> d | _ \<Rightarrow> 0) h)),
      EncodePayload = (\<lambda>h p. case p_payload p of [] \<Rightarrow> (False, []) | b # bs \<Rightarrow> (True, (b + 1) # bs)),
      RestorePayload = (\<lambda>p. case p_payload p of [] \<Rightarrow> [] | b # bs \<Rightarrow> (b - 1) # bs),
      ReceivePacket = (\<lambda>p s. (\<not> stream_paused s, s)),
      StreamPause = (\<lambda>s. s\<lparr>stream_paused := True\<rparr>),
      StreamResume = (\<lambda>s. s\<lparr>stream_paused := False\<rparr>),
      StreamReceiveKeyFrameRequest = (\<lambda>m s. s),
      GetCodecForEncoding = (\<lambda>ps e. hd (codecs ps)),
      GetRtxCodecForEncoding = (\<lambda>ps e. None),
      CanBeKeyFrame = (\<lambda>m. m = ''video/VP8''),
      GetEncodingContext = (\<lambda>m. m = ''video/VP8'')\<rparr>"

definition witness_encoding :: RtpEncodingParameters where
  "witness_encoding =
     \<lparr>ssrc = 1111, rid = [], codecPayloadType = 101, hasCodecPayloadType = True,
      rtx = \<lparr>rtx_ssrc = 0\<rparr>, hasRtx = False, maxBitrate = 0, maxFramerate = 0\<rparr>"

definition witness_codec :: RtpCodecParameters where
  "witness_codec =
     \<lparr>codec_mimeType = ''video/VP8'', codec_payloadType = 101, codec_clockRate = 90000,
      codec_parameters = [],
      rtcpFeedback = [\<lparr>fb_type = ''nack'', fb_parameter = []\<rparr>,
                      \<lparr>fb_type = ''nack'', fb_parameter = ''pli''\<rparr>]\<rparr>"

definition witness_base :: Consumer where
  "witness_base =
     \<lparr>kind = VIDEO,
      rtpParameters = \<lparr>codecs = [witness_codec], encodings = [witness_encoding], rtcp_cname = ''c''\<rparr>,
      consumableRtpEncodings = [witness_encoding\<lparr>ssrc := 2222\<rparr>],
      supportedCodecPayloadTypes = {101},
      maxRtcpInterval = 0, lastRtcpSentTime = 0,
      paused = False, producerPaused = False, listener = []\<rparr>"

definition witness_stream :: RtpStream where
  "witness_stream =
     RtpStreamSend_new (Params_default\<lparr>params_ssrc := 1111, params_clockRate := 90000\<rparr>) 0"

definition witness_consumer :: SimpleConsumer where
  "witness_consumer =
     \<lparr>kind = VIDEO,
      rtpParameters = \<lparr>codecs = [witness_codec], encodings = [witness_encoding], rtcp_cname = ''c''\<rparr>,
      consumableRtpEncodings = [witness_encoding\<lparr>ssrc := 2222\<rparr>],
      supportedCodecPayloadTypes = {101},
      maxRtcpInterval = 1000, lastRtcpSentTime = 1000,
      paused = False, producerPaused = False, listener = [],
      rtpStream = witness_stream, producerRtpStream = Some witness_stream,
      keyFrameSupported = True, syncRequired = True,
      rtpSeqManager = [], rtpTimestampManager = [], encodingContext = Some []\<rparr>"

definition witness_packet :: RtpPacket where
  "witness_packet =
     \<lparr>p_ssrc = 9999, p_sequenceNumber = 25, p_timestamp = 5000, p_payloadType = 101,
      p_isKeyFrame = True, p_payload = [16, 32]\<rparr>"

section \<open>Expected packets\<close>

text \<open>
  C6. For every stream state \<open>GetExpectedPackets\<close> is \<open>(cycles + maxSeq) - baseSeq + 1\<close>,
  read as the source computes it, in unsigned 32-bit arithmetic; after the wrap from
  \<open>maxSeq = 65530\<close> to sequence number 5 (\<open>cycles = 65536\<close>, \<open>baseSeq = 65530\<close>) it is 12.
\<close>

theorem GetExpectedPackets_formula:
  "uint (GetExpectedPackets s)
     = (uint (cycles s) + uint (maxSeq s) - uint (baseSeq s) + 1) mod 2 ^ 32
   \<and> GetExpectedPackets (s\<lparr>cycles := 65536, maxSeq := 5, baseSeq := 65530\<rparr>) = 12"
proof
  have "uint (GetExpectedPackets s)
          = uint ((cycles s + ucast (maxSeq s)) - baseSeq s + 1 :: 32 word)"
    by (simp add: GetExpectedPackets_def uint_up_ucast is_up)
  also have "\<dots> = (uint (cycles s) + uint (ucast (maxSeq s) :: 32 word) - uint (baseSeq s) + 1) mod 2 ^ 32"
    by (simp add: uint_word_ariths mod_simps)
  also have "uint (ucast (maxSeq s) :: 32 word) = uint (maxSeq s)"
    by (simp add: uint_up_ucast is_up)
  finally show "uint (GetExpectedPackets s)
     = (uint (cycles s) + uint (maxSeq s) - uint (baseSeq s) + 1) mod 2 ^ 32" .
next
  show "GetExpectedPackets (s\<lparr>cycles := 65536, maxSeq := 5, baseSeq := 65530\<rparr>) = 12"
    by (simp add: GetExpectedPackets_def)
qed

section \<open>Round trip of RtpEncodingParameters through JSON\<close>

lemma is_object_FillJson: "is_object (FillJson f e)"
  by (simp add: FillJson_def Let_def)

lemma ucast_32_64_32: "(ucast (ucast (x::32 word) :: 64 word) :: 32 word) = x"
  by (simp add: ucast_up_ucast_id is_up)

lemma ucast_8_64_8: "(ucast (ucast (x::8 word) :: 64 word) :: 8 word) = x"
  by (simp add: ucast_up_ucast_id is_up)

lemma find_ssrc_FillJson:
  "json_find (FillJson f e) ''ssrc''
     = (if ssrc e \<noteq> 0 then Some (JNumberUnsigned (ucast (ssrc e))) else None)"
  by (simp add: FillJson_def Let_def update_conv')

lemma find_rid_FillJson:
  "json_find (FillJson f e) ''rid'' = (if rid e \<noteq> [] then Some (JString (rid e)) else None)"
  by (simp add: FillJson_def Let_def update_conv')

lemma find_codecPayloadType_FillJson:
  "json_find (FillJson f e) ''codecPayloadType''
     = (if hasCodecPayloadType e then Some (JNumberUnsigned (ucast (codecPayloadType e))) else None)"
  by (simp add: FillJson_def Let_def update_conv')

lemma find_rtx_FillJson:
  "json_find (FillJson f e) ''rtx'' = (if hasRtx e then Some (f (rtx e)) else None)"
  by (simp add: FillJson_def Let_def update_conv')

lemma find_maxBitrate_FillJson:
  "json_find (FillJson f e) ''maxBitrate''
     = (if maxBitrate e \<noteq> 0 then Some (JNumberUnsigned (ucast (maxBitrate e))) else None)"
  by (simp add: FillJson_def Let_def update_conv')

lemma find_maxFramerate_FillJson:
  "json_find (FillJson f e) ''maxFramerate''
     = (if maxFramerate e > 0 then Some (JNumberFloat (maxFramerate e)) else None)"
  by (simp add: FillJson_def Let_def update_conv')

text \<open>
  C8, as the claim states it, fails: \<open>FillJson\<close> leaves out a \<open>maxFramerate\<close> that is
  not positive, so an encoding with \<open>maxFramerate = -1\<close> (which the constructor accepts
  from \<open>{"maxFramerate": -1.0}\<close>) comes back with \<open>maxFramerate = 0\<close>.
\<close>

theorem RtpEncodingParameters_roundtrip_counterexample:
  "RtpEncodingParameters_of_json RtpRtxParameters_of_json
     (FillJson RtpRtxParameters_FillJson
        \<lparr>ssrc = 0, rid = [], codecPayloadType = 0, hasCodecPayloadType = False,
         rtx = \<lparr>rtx_ssrc = 0\<rparr>, hasRtx = False, maxBitrate = 0, maxFramerate = -1\<rparr>)
   = Inr \<lparr>ssrc = 0, rid = [], codecPayloadType = 0, hasCodecPayloadType = False,
         rtx = \<lparr>rtx_ssrc = 0\<rparr>, hasRtx = False, maxBitrate = 0, maxFramerate = 0\<rparr>
   \<and> RtpEncodingParameters_of_json RtpRtxParameters_of_json
     (FillJson RtpRtxParameters_FillJson
        \<lparr>ssrc = 0, rid = [], codecPayloadType = 0, hasCodecPayloadType = False,
         rtx = \<lparr>rtx_ssrc = 0\<rparr>, hasRtx = False, maxBitrate = 0, maxFramerate = -1\<rparr>)
   \<noteq> Inr \<lparr>ssrc = 0, rid = [], codecPayloadType = 0, hasCodecPayloadType = False,
         rtx = \<lparr>rtx_ssrc = 0\<rparr>, hasRtx = False, maxBitrate = 0, maxFramerate = -1\<rparr>"
  by (simp add: RtpEncodingParameters_of_json_def FillJson_def Let_def read_rtx_def
      read_codecPayloadType_def read_rid_def read_ssrc_def read_maxFramerate_def
      read_maxBitrate_def RtpEncodingParameters_default_def RtpRtxParameters_default_def)

text \<open>
  C8, amended. Serialising an encoding with \<open>FillJson\<close> and parsing the result gives the
  encoding back whenever its \<open>maxFramerate\<close> is not negative, its \<open>codecPayloadType\<close> is
  zero when \<open>hasCodecPayloadType\<close> is false, its \<open>rtx\<close> is the default one when \<open>hasRtx\<close>
  is false, and, when \<open>hasRtx\<close> is true, the pair of \<open>RtpRtxParameters\<close> serialises
  \<open>rtx\<close> to an object that parses back to it.
\<close>

theorem RtpEncodingParameters_roundtrip:
  assumes rtx_roundtrip:
      "hasRtx e \<Longrightarrow> is_object (rtxFillJson (rtx e)) \<and> rtxCtor (rtxFillJson (rtx e)) = Inr (rtx e)"
    and cpt: "hasCodecPayloadType e \<or> codecPayloadType e = 0"
    and no_rtx: "hasRtx e \<or> rtx e = RtpRtxParameters_default"
    and framerate: "0 \<le> maxFramerate e"
  shows "RtpEncodingParameters_of_json rtxCtor (FillJson rtxFillJson e) = Inr e"
proof -
  let ?j = "FillJson rtxFillJson e"
  let ?e1 = "read_codecPayloadType ?j (read_rid ?j (read_ssrc ?j RtpEncodingParameters_default))"
  let ?r1 = "\<lparr>ssrc = ssrc e, rid = rid e, codecPayloadType = codecPayloadType e,
      hasCodecPayloadType = hasCodecPayloadType e, rtx = RtpRtxParameters_default, hasRtx = False,
      maxBitrate = 0, maxFramerate = 0\<rparr>"
  let ?r2 = "\<lparr>ssrc = ssrc e, rid = rid e, codecPayloadType = codecPayloadType e,
      hasCodecPayloadType = hasCodecPayloadType e, rtx = rtx e, hasRtx = hasRtx e,
      maxBitrate = 0, maxFramerate = 0\<rparr>"
  have e1: "?e1 = ?r1"
    using cpt
    by (auto simp add: read_codecPayloadType_def read_rid_def read_ssrc_def find_ssrc_FillJson
        find_rid_FillJson find_codecPayloadType_FillJson ucast_32_64_32 ucast_8_64_8
        RtpEncodingParameters_default_def)
  have "read_rtx rtxCtor ?j ?r1 = Inr ?r2"
  proof (cases "hasRtx e")
    case True
    with rtx_roundtrip obtain kvs
      where "rtxFillJson (rtx e) = JObject kvs" and "rtxCtor (JObject kvs) = Inr (rtx e)"
      by (cases "rtxFillJson (rtx e)") auto
    with True show ?thesis by (simp add: read_rtx_def find_rtx_FillJson)
  next
    case False
    with no_rtx show ?thesis
      by (simp add: read_rtx_def find_rtx_FillJson)
  qed
  with e1 have e2: "read_rtx rtxCtor ?j ?e1 = Inr ?r2" by simp
  have e3: "read_maxFramerate ?j (read_maxBitrate ?j ?r2) = e"
    using framerate
    by (auto simp add: read_maxFramerate_def read_maxBitrate_def find_maxBitrate_FillJson
        find_maxFramerate_FillJson ucast_32_64_32)
  show ?thesis
    unfolding RtpEncodingParameters_of_json_def
    by (simp only: is_object_FillJson e2 e3 not_True_eq_False if_False sum.case)
qed

theorem RtpEncodingParameters_roundtrip_witness:
  "RtpEncodingParameters_of_json RtpRtxParameters_of_json
     (FillJson RtpRtxParameters_FillJson
        \<lparr>ssrc = 1111, rid = ''r0'', codecPayloadType = 101, hasCodecPayloadType = True,
         rtx = \<lparr>rtx_ssrc = 2222\<rparr>, hasRtx = True, maxBitrate = 500000, maxFramerate = 30\<rparr>)
   = Inr \<lparr>ssrc = 1111, rid = ''r0'', codecPayloadType = 101, hasCodecPayloadType = True,
         rtx = \<lparr>rtx_ssrc = 2222\<rparr>, hasRtx = True, maxBitrate = 500000, maxFramerate = 30\<rparr>"
proof (rule RtpEncodingParameters_roundtrip)
  let ?e = "\<lparr>ssrc = 1111, rid = ''r0'', codecPayloadType = 101, hasCodecPayloadType = True,
         rtx = \<lparr>rtx_ssrc = 2222\<rparr>, hasRtx = True, maxBitrate = 500000, maxFramerate = 30\<rparr>"
  show "is_object (RtpRtxParameters_FillJson (rtx ?e))
      \<and> RtpRtxParameters_of_json (RtpRtxParameters_FillJson (rtx ?e)) = Inr (rtx ?e)"
    by (simp add: RtpRtxParameters_FillJson_def RtpRtxParameters_of_json_def)
  show "hasCodecPayloadType ?e \<or> codecPayloadType ?e = 0" by simp
  show "hasRtx ?e \<or> rtx ?e = RtpRtxParameters_default" by simp
  show "0 \<le> maxFramerate ?e" by simp
qed

section \<open>Key-frame requests\<close>

lemma RequestKeyFrame_listener:
  "listener (RequestKeyFrame env c) =
     (if IsActive env c \<and> producerRtpStream c \<noteq> None \<and> kind c = VIDEO
      then listener c @ [OnConsumerKeyFrameRequested (ssrc (consumableRtpEncodings c ! 0))]
      else listener c)"
  by (simp add: RequestKeyFrame_def Let_def)

lemma RequestKeyFrame_syncRequired: "syncRequired (RequestKeyFrame env c) = syncRequired c"
  by (simp add: RequestKeyFrame_def Let_def)

lemma RequestKeyFrame_not_video: "kind c \<noteq> VIDEO \<Longrightarrow> RequestKeyFrame env c = c"
  by (simp add: RequestKeyFrame_def)

text \<open>
  C5. Every call to \<open>Resumed(wasProducer)\<close> leaves \<open>syncRequired\<close> true. When the
  producer resumed (\<open>wasProducer\<close> true) no key-frame request reaches the listener;
  otherwise \<open>RequestKeyFrame\<close> is called on the resumed consumer (the result is that
  of \<open>RequestKeyFrame\<close> after a producer resume), which hands the listener a request
  for the first consumable encoding's ssrc when the consumer is active, has a producer
  stream and is video.
\<close>

theorem Resumed_sync_and_key_frame:
  "syncRequired (Resumed env wasProducer c)
   \<and> Resumed env True c = c\<lparr>rtpStream := StreamResume env (rtpStream c), syncRequired := True\<rparr>
   \<and> Resumed env False c = RequestKeyFrame env (Resumed env True c)
   \<and> listener (Resumed env True c) = listener c
   \<and> listener (Resumed env False c) =
       (if IsActive env (Resumed env True c) \<and> producerRtpStream c \<noteq> None \<and> kind c = VIDEO
        then listener c @ [OnConsumerKeyFrameRequested (ssrc (consumableRtpEncodings c ! 0))]
        else listener c)"
  by (simp add: Resumed_def Let_def RequestKeyFrame_syncRequired RequestKeyFrame_listener)

theorem Resumed_sync_and_key_frame_witness:
  "syncRequired (Resumed witness_env False (witness_consumer\<lparr>syncRequired := False\<rparr>))
   \<and> syncRequired (Resumed witness_env True (witness_consumer\<lparr>syncRequired := False\<rparr>))
   \<and> listener (Resumed witness_env True (witness_consumer\<lparr>syncRequired := False\<rparr>)) = []
   \<and> listener (Resumed witness_env False (witness_consumer\<lparr>syncRequired := False\<rparr>))
        = [OnConsumerKeyFrameRequested 2222]"
proof -
  let ?c = "witness_consumer\<lparr>syncRequired := False\<rparr>"
  note f = Resumed_sync_and_key_frame [of witness_env False ?c]
  note t = Resumed_sync_and_key_frame [of witness_env True ?c]
  have r: "Resumed witness_env True ?c
      = ?c\<lparr>rtpStream := StreamResume witness_env (rtpStream ?c), syncRequired := True\<rparr>"
    using t by blast
  have a: "IsActive witness_env (Resumed witness_env True ?c)"
    unfolding r by (simp add: witness_env_def witness_consumer_def)
  have b: "producerRtpStream ?c \<noteq> None" "kind ?c = VIDEO" "listener ?c = []"
    "ssrc (consumableRtpEncodings ?c ! 0) = 2222"
    by (simp_all add: witness_consumer_def witness_encoding_def)
  have 1: "syncRequired (Resumed witness_env False ?c)" using f by blast
  have 2: "syncRequired (Resumed witness_env True ?c)" using t by blast
  have 3: "listener (Resumed witness_env True ?c) = []" using t b(3) by metis
  have "listener (Resumed witness_env False ?c) =
       (if IsActive witness_env (Resumed witness_env True ?c) \<and> producerRtpStream ?c \<noteq> None
           \<and> kind ?c = VIDEO
        then listener ?c @ [OnConsumerKeyFrameRequested (ssrc (consumableRtpEncodings ?c ! 0))]
        else listener ?c)"
    using f by blast
  then have 4: "listener (Resumed witness_env False ?c) = [OnConsumerKeyFrameRequested 2222]"
    by (simp only: a b if_True simp_thms append_Nil)
  from 1 2 3 4 show ?thesis by blast
qed

text \<open>
  C10. \<open>RequestKeyFrame\<close> hands the listener a key-frame request, for the first
  consumable encoding's ssrc, only when the consumer is active, has a producer stream
  and is video; in every other state it changes nothing. So an audio consumer emits
  no key-frame request through \<open>ReceiveKeyFrameRequest\<close>, \<open>TransportConnected\<close>,
  \<open>Resumed\<close> or the \<open>CONSUMER_REQUEST_KEY_FRAME\<close> request.
\<close>

theorem RequestKeyFrame_only_active_video:
  "listener (RequestKeyFrame env c) =
     (if IsActive env c \<and> producerRtpStream c \<noteq> None \<and> kind c = VIDEO
      then listener c @ [OnConsumerKeyFrameRequested (ssrc (consumableRtpEncodings c ! 0))]
      else listener c)
   \<and> (\<not> (IsActive env c \<and> producerRtpStream c \<noteq> None \<and> kind c = VIDEO)
        \<longrightarrow> RequestKeyFrame env c = c)
   \<and> (kind c = AUDIO \<longrightarrow>
        listener (ReceiveKeyFrameRequest env messageType c) = listener c
      \<and> listener (TransportConnected env c) = listener c
      \<and> listener (Resumed env wasProducer c) = listener c
      \<and> listener (snd (HandleRequest env parentHandleRequest CONSUMER_REQUEST_KEY_FRAME c)) = listener c)"
proof (intro conjI impI)
  show "listener (RequestKeyFrame env c) =
     (if IsActive env c \<and> producerRtpStream c \<noteq> None \<and> kind c = VIDEO
      then listener c @ [OnConsumerKeyFrameRequested (ssrc (consumableRtpEncodings c ! 0))]
      else listener c)"
    by (rule RequestKeyFrame_listener)
next
  assume "\<not> (IsActive env c \<and> producerRtpStream c \<noteq> None \<and> kind c = VIDEO)"
  then show "RequestKeyFrame env c = c"
    by (auto simp add: RequestKeyFrame_def)
next
  assume a: "kind c = AUDIO"
  show "listener (ReceiveKeyFrameRequest env messageType c) = listener c"
    using a by (simp add: ReceiveKeyFrameRequest_def RequestKeyFrame_not_video)
  show "listener (TransportConnected env c) = listener c"
    using a by (simp add: TransportConnected_def RequestKeyFrame_not_video)
  show "listener (Resumed env wasProducer c) = listener c"
    using a by (simp add: Resumed_def Let_def RequestKeyFrame_not_video)
  show "listener (snd (HandleRequest env parentHandleRequest CONSUMER_REQUEST_KEY_FRAME c)) = listener c"
    using a by (simp add: HandleRequest_def RequestKeyFrame_not_video)
qed

theorem RequestKeyFrame_only_active_video_witness:
  "listener (RequestKeyFrame witness_env witness_consumer) = [OnConsumerKeyFrameRequested 2222]
   \<and> RequestKeyFrame witness_env (witness_consumer\<lparr>kind := AUDIO\<rparr>) = witness_consumer\<lparr>kind := AUDIO\<rparr>
   \<and> listener (ReceiveKeyFrameRequest witness_env PLI (witness_consumer\<lparr>kind := AUDIO\<rparr>)) = []
   \<and> listener (TransportConnected witness_env (witness_consumer\<lparr>kind := AUDIO\<rparr>)) = []
   \<and> listener (Resumed witness_env False (witness_consumer\<lparr>kind := AUDIO\<rparr>)) = []
   \<and> listener (snd (HandleRequest witness_env (\<lambda>m c. (False, c)) (CONSUMER_REQUEST_KEY_FRAME :: unit MethodId)
        (witness_consumer\<lparr>kind := AUDIO\<rparr>))) = []"
proof -
  let ?a = "witness_consumer\<lparr>kind := AUDIO\<rparr>"
  note v = RequestKeyFrame_only_active_video [of witness_env witness_consumer]
  note t = RequestKeyFrame_only_active_video
             [of witness_env ?a PLI False "\<lambda>(m::unit) c. (False, c)"]
  have a: "IsActive witness_env witness_consumer" "producerRtpStream witness_consumer \<noteq> None"
    "kind witness_consumer = VIDEO" "listener witness_consumer = []"
    "ssrc (consumableRtpEncodings witness_consumer ! 0) = 2222"
    by (simp_all add: witness_env_def witness_consumer_def witness_encoding_def)
  have b: "kind ?a = AUDIO" "listener ?a = []"
    by (simp_all add: witness_consumer_def)
  from v a have 1: "listener (RequestKeyFrame witness_env witness_consumer) = [OnConsumerKeyFrameRequested 2222]"
    by simp
  from t b have 2: "RequestKeyFrame witness_env ?a = ?a
   \<and> listener (ReceiveKeyFrameRequest witness_env PLI ?a) = []
   \<and> listener (TransportConnected witness_env ?a) = []
   \<and> listener (Resumed witness_env False ?a) = []
   \<and> listener (snd (HandleRequest witness_env (\<lambda>m c. (False, c)) (CONSUMER_REQUEST_KEY_FRAME :: unit MethodId) ?a)) = []"
    by simp
  from 1 2 show ?thesis by blast
qed

section \<open>The constructor\<close>

text \<open>
  C7. The constructor succeeds only when there is exactly one consumable encoding:
  with any other number it fails with a type error, before \<open>CreateRtpStream\<close> runs
  (the result holds no consumer, hence no stream), and with exactly one it returns a
  consumer.
\<close>

theorem SimpleConsumer_new_single_encoding:
  "(length (consumableRtpEncodings b) \<noteq> 1 \<longrightarrow>
      SimpleConsumer_new env (Inr b)
        = Inl (MediaSoupTypeError ''invalid consumableRtpEncodings with size != 1''))
   \<and> (SimpleConsumer_new env base = Inr c \<longrightarrow>
        (\<exists>b'. base = Inr b' \<and> length (consumableRtpEncodings b') = 1
             \<and> consumableRtpEncodings c = consumableRtpEncodings b'))
   \<and> (length (consumableRtpEncodings b) = 1 \<longrightarrow>
        (\<exists>c'. SimpleConsumer_new env (Inr b) = Inr c'))"
  by (auto simp add: SimpleConsumer_new_def CreateRtpStream_def Let_def split: sum.splits if_splits)

theorem SimpleConsumer_new_single_encoding_witness:
  "SimpleConsumer_new witness_env (Inr (witness_base\<lparr>consumableRtpEncodings := []\<rparr>))
     = Inl (MediaSoupTypeError ''invalid consumableRtpEncodings with size != 1'')
   \<and> SimpleConsumer_new witness_env
        (Inr (witness_base\<lparr>consumableRtpEncodings := [witness_encoding, witness_encoding]\<rparr>))
     = Inl (MediaSoupTypeError ''invalid consumableRtpEncodings with size != 1'')
   \<and> (\<exists>c'. SimpleConsumer_new witness_env (Inr witness_base) = Inr c')"
  using SimpleConsumer_new_single_encoding [of "witness_base\<lparr>consumableRtpEncodings := []\<rparr>" witness_env]
        SimpleConsumer_new_single_encoding
          [of "witness_base\<lparr>consumableRtpEncodings := [witness_encoding, witness_encoding]\<rparr>" witness_env]
        SimpleConsumer_new_single_encoding [of witness_base witness_env]
  by (simp add: witness_base_def)

section \<open>The interval between RTCP reports\<close>

text \<open>
  C3, as the claim states it, fails: the test allows 15% of slack. A video consumer
  (interval 1000 ms) that sent its last report at 1000 adds a sender report at 1900,
  only 900 ms later, since \<open>900 * 1.15 = 1035\<close> is not below 1000.
\<close>

theorem GetRtcp_interval_counterexample:
  "senderReports (fst (GetRtcp (\<lambda>now s. Some (0::nat)) (\<lambda>s. (0::nat))
        \<lparr>senderReports = [], sdesChunks = []\<rparr> 1900 witness_consumer)) = [0]
   \<and> lastRtcpSentTime witness_consumer = 1000
   \<and> maxRtcpInterval witness_consumer = 1000
   \<and> \<not> (unat (1900 - lastRtcpSentTime witness_consumer) \<ge> unat (maxRtcpInterval witness_consumer))"
  by (simp add: GetRtcp_def witness_consumer_def Let_def)

text \<open>
  C3, amended. Whenever \<open>GetRtcp\<close> adds a sender report at \<open>now\<close>, the time since the
  previous one, \<open>now - lastRtcpSentTime\<close> (in \<open>uint64_t\<close>), times 1.15 is at least
  \<open>maxRtcpInterval\<close>, and \<open>lastRtcpSentTime\<close> becomes \<open>now\<close>; when it adds none, the
  packet and the consumer are unchanged.
\<close>

theorem GetRtcp_interval:
  "(senderReports (fst (GetRtcp getReport getChunk packet now c)) \<noteq> senderReports packet \<longrightarrow>
      unat (maxRtcpInterval c) * 100 \<le> unat (now - lastRtcpSentTime c) * 115
      \<and> lastRtcpSentTime (snd (GetRtcp getReport getChunk packet now c)) = now)
   \<and> (senderReports (fst (GetRtcp getReport getChunk packet now c)) = senderReports packet \<longrightarrow>
      GetRtcp getReport getChunk packet now c = (packet, c))"
proof -
  have eq: "(real (unat (now - lastRtcpSentTime c)) * (115 / 100) < real (unat (maxRtcpInterval c)))
      = (unat (now - lastRtcpSentTime c) * 115 < unat (maxRtcpInterval c) * 100)"
  proof -
    have "(real (unat (now - lastRtcpSentTime c)) * (115 / 100) < real (unat (maxRtcpInterval c)))
       = (real (unat (now - lastRtcpSentTime c) * 115) < real (unat (maxRtcpInterval c) * 100))"
      by (simp add: field_simps)
    then show ?thesis by (simp only: of_nat_less_iff)
  qed
  show ?thesis
    unfolding GetRtcp_def eq
    by (auto simp add: Let_def split: option.splits)
qed

theorem GetRtcp_interval_witness:
  "senderReports (fst (GetRtcp (\<lambda>now s. Some (0::nat)) (\<lambda>s. (0::nat))
        \<lparr>senderReports = [], sdesChunks = []\<rparr> 1900 witness_consumer)) \<noteq> []
   \<and> unat (maxRtcpInterval witness_consumer) * 100 \<le> unat (1900 - lastRtcpSentTime witness_consumer) * 115
   \<and> lastRtcpSentTime (snd (GetRtcp (\<lambda>now s. Some (0::nat)) (\<lambda>s. (0::nat))
        \<lparr>senderReports = [], sdesChunks = []\<rparr> 1900 witness_consumer)) = 1900
   \<and> GetRtcp (\<lambda>now s. Some (0::nat)) (\<lambda>s. (0::nat))
        \<lparr>senderReports = [], sdesChunks = []\<rparr> 1800 witness_consumer
      = (\<lparr>senderReports = [], sdesChunks = []\<rparr>, witness_consumer)"
  using GetRtcp_interval [of "\<lambda>now s. Some (0::nat)" "\<lambda>s. (0::nat)" "\<lparr>senderReports = [], sdesChunks = []\<rparr>" 1900 witness_consumer]
    GetRtcp_interval [of "\<lambda>now s. Some (0::nat)" "\<lambda>s. (0::nat)" "\<lparr>senderReports = [], sdesChunks = []\<rparr>" 1800 witness_consumer]
  by (simp add: GetRtcp_def witness_consumer_def Let_def)

section \<open>SendRtpPacket and the packet it is given\<close>


lemma snd_rewrite_send_restore:
  "snd (rewrite_send_restore env p c) =
     (let q = p\<lparr>p_ssrc := ssrc (encodings (rtpParameters c) ! 0),
                p_sequenceNumber := SeqInput env (rtpSeqManager c) (p_sequenceNumber p),
                p_timestamp := TimestampInput env (rtpTimestampManager c) (p_timestamp p)\<rparr>
      in c\<lparr>rtpSeqManager := rtpSeqManager c @ [Input (p_sequenceNumber p)],
           rtpTimestampManager := rtpTimestampManager c @ [Input (p_timestamp p)],
           rtpStream := snd (ReceivePacket env q (rtpStream c)),
           listener := (if fst (ReceivePacket env q (rtpStream c))
                        then listener c @ [OnConsumerSendRtpPacket q] else listener c)\<rparr>)"
  by (simp add: rewrite_send_restore_def Let_def case_prod_beta)








section \<open>SendRtpPacket: synchronisation and failed encodings\<close>

lemma snd_encode_and_send:
  "snd (encode_and_send env p c) =
     (case encodingContext c of
        None \<Rightarrow> snd (rewrite_send_restore env p c)
      | Some ctx \<Rightarrow>
          if fst (EncodePayload env ctx p)
          then snd (rewrite_send_restore env (p\<lparr>p_payload := snd (EncodePayload env ctx p)\<rparr>)
                      (c\<lparr>encodingContext := Some (ctx @ [Encode (p_payload p)])\<rparr>))
          else c\<lparr>encodingContext := Some (ctx @ [Encode (p_payload p)]),
                 rtpSeqManager := rtpSeqManager c @ [Drop (p_sequenceNumber p)],
                 rtpTimestampManager := rtpTimestampManager c @ [Drop (p_timestamp p)]\<rparr>)"
  by (simp add: encode_and_send_def Let_def case_prod_beta split: option.splits)

lemma syncRequired_encode_and_send:
  "syncRequired (snd (encode_and_send env p c)) = syncRequired c"
  by (simp add: snd_encode_and_send snd_rewrite_send_restore Let_def split: option.splits)

lemma sync_seq_and_timestamp_eq:
  "sync_seq_and_timestamp env packet c =
     c\<lparr>rtpSeqManager := rtpSeqManager c @ [Sync (p_sequenceNumber packet)],
       rtpTimestampManager := rtpTimestampManager c @ Sync (p_timestamp packet) #
         (if GetMaxPacketMs (rtpStream c) \<noteq> 0
          then [Offset (ucast ((GetTime env - GetMaxPacketMs (rtpStream c))
                                 * ucast (GetClockRate (rtpStream c)) div 1000))]
          else []),
       encodingContext := map_option (\<lambda>h. h @ [SyncRequired]) (encodingContext c),
       syncRequired := False\<rparr>"
  by (cases "encodingContext c") (simp_all add: sync_seq_and_timestamp_def Let_def)

lemma rtpTimestampManager_encode_and_send:
  "rtpTimestampManager (snd (encode_and_send env p c)) = rtpTimestampManager c @ [Input (p_timestamp p)]
   \<or> rtpTimestampManager (snd (encode_and_send env p c)) = rtpTimestampManager c @ [Drop (p_timestamp p)]"
  by (simp add: snd_encode_and_send snd_rewrite_send_restore Let_def split: option.splits)

lemma listener_encode_and_send:
  "listener (snd (encode_and_send env p c)) = listener c
   \<or> (\<exists>q. listener (snd (encode_and_send env p c)) = listener c @ [OnConsumerSendRtpPacket q]
          \<and> p_timestamp q = TimestampInput env (rtpTimestampManager c) (p_timestamp p))"
  by (simp add: snd_encode_and_send snd_rewrite_send_restore Let_def split: option.splits)

text \<open>
  C4. When a packet reaches the encoding step of \<open>SendRtpPacket\<close> with an encoding
  context attached and \<open>EncodePayload\<close> fails, the packet's own sequence number and
  timestamp are recorded as dropped in the two remappers (after the calls of the sync
  step, if this was a sync packet) and nothing is handed to the listener.
\<close>

theorem SendRtpPacket_encode_failure:
  assumes active: "IsActive env c"
    and supported: "p_payloadType packet \<in> supportedCodecPayloadTypes c"
    and not_waiting: "\<not> (syncRequired c \<and> keyFrameSupported c \<and> \<not> p_isKeyFrame packet)"
    and ctx: "encodingContext c = Some ctx"
    and fails: "\<not> fst (EncodePayload env (if syncRequired c then ctx @ [SyncRequired] else ctx) packet)"
  shows "rtpSeqManager (snd (SendRtpPacket env packet c))
           = rtpSeqManager c
               @ (if syncRequired c then [Sync (p_sequenceNumber packet)] else [])
               @ [Drop (p_sequenceNumber packet)]
       \<and> rtpTimestampManager (snd (SendRtpPacket env packet c))
           = rtpTimestampManager c
               @ (if syncRequired c
                  then Sync (p_timestamp packet) #
                    (if GetMaxPacketMs (rtpStream c) \<noteq> 0
                     then [Offset (ucast ((GetTime env - GetMaxPacketMs (rtpStream c))
                                            * ucast (GetClockRate (rtpStream c)) div 1000))]
                     else [])
                  else [])
               @ [Drop (p_timestamp packet)]
       \<and> listener (snd (SendRtpPacket env packet c)) = listener c"
proof (cases "syncRequired c")
  case True
  with assms show ?thesis
    by (simp add: SendRtpPacket_def Let_def snd_encode_and_send sync_seq_and_timestamp_eq)
next
  case False
  with assms show ?thesis
    by (simp add: SendRtpPacket_def Let_def snd_encode_and_send)
qed

theorem SendRtpPacket_encode_failure_witness:
  "rtpSeqManager (snd (SendRtpPacket witness_env (witness_packet\<lparr>p_payload := []\<rparr>) witness_consumer))
      = [Sync 25, Drop 25]
   \<and> rtpTimestampManager (snd (SendRtpPacket witness_env (witness_packet\<lparr>p_payload := []\<rparr>) witness_consumer))
      = [Sync 5000, Drop 5000]
   \<and> listener (snd (SendRtpPacket witness_env (witness_packet\<lparr>p_payload := []\<rparr>) witness_consumer)) = []"
proof -
  let ?p = "witness_packet\<lparr>p_payload := []\<rparr>"
  have h: "IsActive witness_env witness_consumer"
    "p_payloadType ?p \<in> supportedCodecPayloadTypes witness_consumer"
    "\<not> (syncRequired witness_consumer \<and> keyFrameSupported witness_consumer \<and> \<not> p_isKeyFrame ?p)"
    "encodingContext witness_consumer = Some []"
    "\<not> fst (EncodePayload witness_env
              (if syncRequired witness_consumer then [] @ [SyncRequired] else []) ?p)"
    by (simp_all add: witness_env_def witness_consumer_def witness_packet_def)
  have v: "syncRequired witness_consumer" "rtpSeqManager witness_consumer = []"
    "rtpTimestampManager witness_consumer = []" "listener witness_consumer = []"
    "GetMaxPacketMs (rtpStream witness_consumer) = 0"
    "p_sequenceNumber ?p = 25" "p_timestamp ?p = 5000"
    by (simp_all add: witness_consumer_def witness_packet_def witness_stream_def
        RtpStreamSend_new_def GetMaxPacketMs_def)
  from SendRtpPacket_encode_failure [OF h] v show ?thesis by simp
qed

text \<open>
  C2, as the claim states it, fails where the egress stream has not sent anything yet
  (\<open>maxPacketMs = 0\<close>): the sync packet of a new consumer at time 20000 with a 90 kHz
  clock would get the offset \<open>20000 * 90000 / 1000 = 1800000\<close>, but the timestamp
  remapper sees \<open>Sync\<close> and \<open>Input\<close> only.
\<close>

theorem SendRtpPacket_sync_counterexample:
  "IsActive witness_env witness_consumer
   \<and> syncRequired witness_consumer
   \<and> p_isKeyFrame witness_packet
   \<and> p_payloadType witness_packet \<in> supportedCodecPayloadTypes witness_consumer
   \<and> (ucast ((GetTime witness_env - GetMaxPacketMs (rtpStream witness_consumer))
               * ucast (GetClockRate (rtpStream witness_consumer)) div 1000) :: 32 word) = 1800000
   \<and> rtpTimestampManager (snd (SendRtpPacket witness_env witness_packet witness_consumer))
        = [Sync 5000, Input 5000]
   \<and> Offset 1800000 \<notin> set (rtpTimestampManager
          (snd (SendRtpPacket witness_env witness_packet witness_consumer)))"
  by (simp add: SendRtpPacket_def Let_def snd_encode_and_send sync_seq_and_timestamp_eq
      snd_rewrite_send_restore witness_env_def witness_consumer_def witness_packet_def
      witness_stream_def RtpStreamSend_new_def GetMaxPacketMs_def GetClockRate_def Params_default_def)

text \<open>
  C2, amended. For a packet that arrives while \<open>syncRequired\<close> is set, at an active
  consumer that supports its payload type: if key frames are supported and the packet
  is not one, it is dropped and nothing changes (\<open>syncRequired\<close> stays true).
  Otherwise the consumer calls \<open>Sync\<close> with the packet's sequence number and timestamp
  on the two remappers, gives the timestamp remapper the offset
  \<open>(now - maxPacketMs) * clockRate / 1000\<close> when the stream's \<open>maxPacketMs\<close> is not
  zero (and no offset when it is zero), calls \<open>SyncRequired\<close> on the encoding context
  if there is one, clears \<open>syncRequired\<close> and goes on to encode and send from that
  state; \<open>syncRequired\<close> is false on return.
\<close>

theorem SendRtpPacket_sync:
  assumes active: "IsActive env c"
    and supported: "p_payloadType packet \<in> supportedCodecPayloadTypes c"
    and sync: "syncRequired c"
  shows "SendRtpPacket env packet c =
      (if keyFrameSupported c \<and> \<not> p_isKeyFrame packet then (packet, c)
       else encode_and_send env packet
         (c\<lparr>rtpSeqManager := rtpSeqManager c @ [Sync (p_sequenceNumber packet)],
            rtpTimestampManager := rtpTimestampManager c @ Sync (p_timestamp packet) #
              (if GetMaxPacketMs (rtpStream c) \<noteq> 0
               then [Offset (ucast ((GetTime env - GetMaxPacketMs (rtpStream c))
                                      * ucast (GetClockRate (rtpStream c)) div 1000))]
               else []),
            encodingContext := map_option (\<lambda>h. h @ [SyncRequired]) (encodingContext c),
            syncRequired := False\<rparr>))
     \<and> syncRequired (snd (SendRtpPacket env packet c))
         = (keyFrameSupported c \<and> \<not> p_isKeyFrame packet)"
  using assms
  by (simp add: SendRtpPacket_def Let_def sync_seq_and_timestamp_eq syncRequired_encode_and_send)


theorem SendRtpPacket_sync_witness:
  "SendRtpPacket witness_env (witness_packet\<lparr>p_isKeyFrame := False\<rparr>) witness_consumer
     = (witness_packet\<lparr>p_isKeyFrame := False\<rparr>, witness_consumer)
   \<and> syncRequired (snd (SendRtpPacket witness_env (witness_packet\<lparr>p_isKeyFrame := False\<rparr>) witness_consumer))
   \<and> \<not> syncRequired (snd (SendRtpPacket witness_env witness_packet witness_consumer))
   \<and> SendRtpPacket witness_env witness_packet
        (witness_consumer\<lparr>rtpStream := witness_stream\<lparr>maxPacketMs := 19000\<rparr>\<rparr>)
      = encode_and_send witness_env witness_packet
         (witness_consumer\<lparr>rtpStream := witness_stream\<lparr>maxPacketMs := 19000\<rparr>,
            rtpSeqManager := [Sync 25], rtpTimestampManager := [Sync 5000, Offset 90000],
            encodingContext := Some [SyncRequired], syncRequired := False\<rparr>)"
proof -
  let ?n = "witness_packet\<lparr>p_isKeyFrame := False\<rparr>"
  let ?c = "witness_consumer\<lparr>rtpStream := witness_stream\<lparr>maxPacketMs := 19000\<rparr>\<rparr>"
  have h: "IsActive witness_env witness_consumer"
    "p_payloadType ?n \<in> supportedCodecPayloadTypes witness_consumer"
    "p_payloadType witness_packet \<in> supportedCodecPayloadTypes witness_consumer"
    "syncRequired witness_consumer"
    by (simp_all add: witness_env_def witness_consumer_def witness_packet_def)
  have h': "IsActive witness_env ?c"
    "p_payloadType witness_packet \<in> supportedCodecPayloadTypes ?c"
    "syncRequired ?c"
    by (simp_all add: witness_env_def witness_consumer_def witness_packet_def)
  have v: "keyFrameSupported witness_consumer" "\<not> p_isKeyFrame ?n" "p_isKeyFrame witness_packet"
    by (simp_all add: witness_consumer_def witness_packet_def)
  have 1: "SendRtpPacket witness_env ?n witness_consumer = (?n, witness_consumer)
      \<and> syncRequired (snd (SendRtpPacket witness_env ?n witness_consumer))"
    using SendRtpPacket_sync [OF h(1) h(2) h(4)] v h(4) by simp
  have 2: "\<not> syncRequired (snd (SendRtpPacket witness_env witness_packet witness_consumer))"
    using SendRtpPacket_sync [OF h(1) h(3) h(4), THEN conjunct2] v by simp
  have 3: "SendRtpPacket witness_env witness_packet ?c
      = encode_and_send witness_env witness_packet
         (?c\<lparr>rtpSeqManager := [Sync 25], rtpTimestampManager := [Sync 5000, Offset 90000],
            encodingContext := Some [SyncRequired], syncRequired := False\<rparr>)"
    using SendRtpPacket_sync [OF h', THEN conjunct1]
    by (simp add: witness_env_def witness_consumer_def witness_packet_def witness_stream_def
        RtpStreamSend_new_def GetMaxPacketMs_def GetClockRate_def Params_default_def)
  from 1 2 3 show ?thesis by blast
qed

text \<open>
  C9. In the sync step the offset is applied only when the egress stream's
  \<open>maxPacketMs\<close> is not zero. When it is zero, the timestamp remapper sees \<open>Sync\<close>
  followed at once by the packet's \<open>Input\<close> (or \<open>Drop\<close>), and a packet that is sent
  carries the output the remapper gives right after \<open>Sync\<close>. When it is not zero, the
  \<open>Offset\<close> of \<open>(now - maxPacketMs) * clockRate / 1000\<close> comes between the two.
\<close>

theorem SendRtpPacket_sync_offset:
  assumes active: "IsActive env c"
    and supported: "p_payloadType packet \<in> supportedCodecPayloadTypes c"
    and sync: "syncRequired c"
    and not_waiting: "\<not> (keyFrameSupported c \<and> \<not> p_isKeyFrame packet)"
  shows "(GetMaxPacketMs (rtpStream c) = 0 \<longrightarrow>
           (rtpTimestampManager (snd (SendRtpPacket env packet c))
              = rtpTimestampManager c @ [Sync (p_timestamp packet), Input (p_timestamp packet)]
            \<or> rtpTimestampManager (snd (SendRtpPacket env packet c))
              = rtpTimestampManager c @ [Sync (p_timestamp packet), Drop (p_timestamp packet)])
         \<and> (listener (snd (SendRtpPacket env packet c)) = listener c
            \<or> (\<exists>q. listener (snd (SendRtpPacket env packet c))
                      = listener c @ [OnConsumerSendRtpPacket q]
                    \<and> p_timestamp q
                      = TimestampInput env (rtpTimestampManager c @ [Sync (p_timestamp packet)])
                          (p_timestamp packet))))
       \<and> (GetMaxPacketMs (rtpStream c) \<noteq> 0 \<longrightarrow>
           (rtpTimestampManager (snd (SendRtpPacket env packet c))
              = rtpTimestampManager c @
                  [Sync (p_timestamp packet),
                   Offset (ucast ((GetTime env - GetMaxPacketMs (rtpStream c))
                                    * ucast (GetClockRate (rtpStream c)) div 1000)),
                   Input (p_timestamp packet)]
            \<or> rtpTimestampManager (snd (SendRtpPacket env packet c))
              = rtpTimestampManager c @
                  [Sync (p_timestamp packet),
                   Offset (ucast ((GetTime env - GetMaxPacketMs (rtpStream c))
                                    * ucast (GetClockRate (rtpStream c)) div 1000)),
                   Drop (p_timestamp packet)]))"
proof -
  let ?c1 = "sync_seq_and_timestamp env packet c"
  have s: "snd (SendRtpPacket env packet c) = snd (encode_and_send env packet ?c1)"
    using assms by (auto simp add: SendRtpPacket_def Let_def)
  have l: "listener ?c1 = listener c"
    by (simp add: sync_seq_and_timestamp_eq)
  show ?thesis
  proof (cases "GetMaxPacketMs (rtpStream c) = 0")
    case True
    then have t: "rtpTimestampManager ?c1 = rtpTimestampManager c @ [Sync (p_timestamp packet)]"
      by (simp add: sync_seq_and_timestamp_eq)
    from True rtpTimestampManager_encode_and_send [of env packet ?c1]
      listener_encode_and_send [of env packet ?c1]
    show ?thesis unfolding s t l by simp
  next
    case False
    then have t: "rtpTimestampManager ?c1 = rtpTimestampManager c @
        [Sync (p_timestamp packet),
         Offset (ucast ((GetTime env - GetMaxPacketMs (rtpStream c))
                          * ucast (GetClockRate (rtpStream c)) div 1000))]"
      by (simp add: sync_seq_and_timestamp_eq)
    from False rtpTimestampManager_encode_and_send [of env packet ?c1]
    show ?thesis unfolding s t by simp
  qed
qed

theorem SendRtpPacket_sync_offset_witness:
  "rtpTimestampManager (snd (SendRtpPacket witness_env witness_packet witness_consumer))
     = [Sync 5000, Input 5000]
   \<and> listener (snd (SendRtpPacket witness_env witness_packet witness_consumer))
     = [OnConsumerSendRtpPacket
          \<lparr>p_ssrc = 1111, p_sequenceNumber = 1025, p_timestamp = 5007, p_payloadType = 101,
           p_isKeyFrame = True, p_payload = [17, 32]\<rparr>]
   \<and> TimestampInput witness_env [Sync 5000] 5000 = 5007
   \<and> rtpTimestampManager (snd (SendRtpPacket witness_env witness_packet
        (witness_consumer\<lparr>rtpStream := witness_stream\<lparr>maxPacketMs := 19000\<rparr>\<rparr>)))
     = [Sync 5000, Offset 90000, Input 5000]"
proof -
  let ?c = "witness_consumer\<lparr>rtpStream := witness_stream\<lparr>maxPacketMs := 19000\<rparr>\<rparr>"
  have h: "IsActive witness_env witness_consumer"
    "p_payloadType witness_packet \<in> supportedCodecPayloadTypes witness_consumer"
    "syncRequired witness_consumer"
    "\<not> (keyFrameSupported witness_consumer \<and> \<not> p_isKeyFrame witness_packet)"
    by (simp_all add: witness_env_def witness_consumer_def witness_packet_def)
  have h': "IsActive witness_env ?c"
    "p_payloadType witness_packet \<in> supportedCodecPayloadTypes ?c"
    "syncRequired ?c"
    "\<not> (keyFrameSupported ?c \<and> \<not> p_isKeyFrame witness_packet)"
    by (simp_all add: witness_env_def witness_consumer_def witness_packet_def)
  note a = SendRtpPacket_sync_offset [OF h]
  note b = SendRtpPacket_sync_offset [OF h']
  have e: "snd (SendRtpPacket witness_env witness_packet witness_consumer)
      = witness_consumer
         \<lparr>rtpSeqManager := [Sync 25, Input 25], rtpTimestampManager := [Sync 5000, Input 5000],
          encodingContext := Some [SyncRequired, Encode [16, 32]], syncRequired := False,
          listener := [OnConsumerSendRtpPacket
            \<lparr>p_ssrc = 1111, p_sequenceNumber = 1025, p_timestamp = 5007, p_payloadType = 101,
             p_isKeyFrame = True, p_payload = [17, 32]\<rparr>]\<rparr>"
    by (simp add: SendRtpPacket_def Let_def snd_encode_and_send sync_seq_and_timestamp_eq
      snd_rewrite_send_restore witness_env_def witness_consumer_def witness_packet_def
      witness_stream_def RtpStreamSend_new_def GetMaxPacketMs_def GetClockRate_def
      Params_default_def witness_encoding_def)
  have e': "rtpTimestampManager (snd (SendRtpPacket witness_env witness_packet ?c))
      = [Sync 5000, Offset 90000, Input 5000]"
    by (simp add: SendRtpPacket_def Let_def snd_encode_and_send sync_seq_and_timestamp_eq
      snd_rewrite_send_restore witness_env_def witness_consumer_def witness_packet_def
      witness_stream_def RtpStreamSend_new_def GetMaxPacketMs_def GetClockRate_def
      Params_default_def witness_encoding_def)
  have t: "TimestampInput witness_env [Sync 5000] 5000 = 5007"
    by (simp add: witness_env_def)
  from a b e e' t show ?thesis by simp
qed


end
